theory Spec2Isabelle
  imports Main "HOL-Library.Word"
begin

unbundle bit_operations_syntax

section \<open>The CoinstoreMM request signer\<close>

text \<open>
  The repository holds two servers that sign requests for the Coinstore REST API:
  \<^verbatim>\<open>src/src/index.ts\<close> (function \<^verbatim>\<open>computeSignHeaders\<close>) and
  \<^verbatim>\<open>src/js/lasttrade.js\<close> (a script \<^verbatim>\<open>main\<close> and, in the second document of the
  file, function \<^verbatim>\<open>createSignedHeaders\<close>). Both derive a key from the API secret and a
  30 second time bucket with HMAC-SHA256 and sign the request with that key.

  A JavaScript string is modelled as a \<^typ>\<open>string\<close> holding its UTF-8 bytes, one
  \<^typ>\<open>char\<close> per byte; this is what Node's \<^verbatim>\<open>crypto\<close> feeds to the hash when it is
  given a string. The clock value \<^verbatim>\<open>Date.now()\<close> is an \<^typ>\<open>int\<close> (milliseconds).
\<close>

subsection \<open>Node's \<^verbatim>\<open>crypto\<close> library: SHA-256 (FIPS 180-4) and HMAC (RFC 2104)\<close>

type_synonym byte = "8 word"
type_synonym word32 = "32 word"
type_synonym hash_state =
  "word32 \<times> word32 \<times> word32 \<times> word32 \<times> word32 \<times> word32 \<times> word32 \<times> word32"

definition rotr :: "nat \<Rightarrow> word32 \<Rightarrow> word32" where
  "rotr n x = drop_bit n x OR push_bit (32 - n) x"

definition Ch :: "word32 \<Rightarrow> word32 \<Rightarrow> word32 \<Rightarrow> word32" where
  "Ch x y z = (x AND y) XOR (NOT x AND z)"

definition Maj :: "word32 \<Rightarrow> word32 \<Rightarrow> word32 \<Rightarrow> word32" where
  "Maj x y z = (x AND y) XOR (x AND z) XOR (y AND z)"

definition Sigma0 :: "word32 \<Rightarrow> word32" where
  "Sigma0 x = rotr 2 x XOR rotr 13 x XOR rotr 22 x"

definition Sigma1 :: "word32 \<Rightarrow> word32" where
  "Sigma1 x = rotr 6 x XOR rotr 11 x XOR rotr 25 x"

definition sigma0 :: "word32 \<Rightarrow> word32" where
  "sigma0 x = rotr 7 x XOR rotr 18 x XOR drop_bit 3 x"

definition sigma1 :: "word32 \<Rightarrow> word32" where
  "sigma1 x = rotr 17 x XOR rotr 19 x XOR drop_bit 10 x"

text \<open>
  The round constants (the first 32 bits of the fractional parts of the cube roots of the
  first 64 primes) and the initial hash value (of the square roots of the first 8 primes),
  in decimal.
\<close>

definition K256 :: "word32 list" where
  "K256 = [
     1116352408, 1899447441, 3049323471, 3921009573, 961987163, 1508970993,
     2453635748, 2870763221, 3624381080, 310598401, 607225278, 1426881987,
     1925078388, 2162078206, 2614888103, 3248222580, 3835390401, 4022224774,
     264347078, 604807628, 770255983, 1249150122, 1555081692, 1996064986,
     2554220882, 2821834349, 2952996808, 3210313671, 3336571891, 3584528711,
     113926993, 338241895, 666307205, 773529912, 1294757372, 1396182291,
     1695183700, 1986661051, 2177026350, 2456956037, 2730485921, 2820302411,
     3259730800, 3345764771, 3516065817, 3600352804, 4094571909, 275423344,
     430227734, 506948616, 659060556, 883997877, 958139571, 1322822218,
     1537002063, 1747873779, 1955562222, 2024104815, 2227730452, 2361852424,
     2428436474, 2756734187, 3204031479, 3329325298]"

definition H256 :: hash_state where
  "H256 = (1779033703, 3144134277, 1013904242, 2773480762,
           1359893119, 2600822924, 528734635, 1541459225)"

text \<open>Padding: the byte \<open>0x80\<close>, zeros up to 56 modulo 64, the bit length in 8 bytes.\<close>

definition length_bytes :: "nat \<Rightarrow> byte list" where
  "length_bytes n = map (\<lambda>i. ucast (drop_bit (8 * i) (word_of_nat n :: 64 word))) (rev [0..<8])"

definition pad :: "byte list \<Rightarrow> byte list" where
  "pad m = m @ [0x80] @ replicate ((119 - length m mod 64) mod 64) 0
             @ length_bytes (8 * length m)"

definition be_word :: "byte list \<Rightarrow> word32" where
  "be_word bs = foldl (\<lambda>acc b. push_bit 8 acc OR ucast b) 0 bs"

fun words_of :: "nat \<Rightarrow> byte list \<Rightarrow> word32 list" where
  "words_of 0 bs = []"
| "words_of (Suc n) bs = be_word (take 4 bs) # words_of n (drop 4 bs)"

text \<open>The message schedule: sixteen words of the block, extended to sixty-four.\<close>

fun schedule :: "nat \<Rightarrow> word32 list \<Rightarrow> word32 list" where
  "schedule 0 w = w"
| "schedule (Suc n) w =
     schedule n (w @ [sigma1 (w ! (length w - 2)) + w ! (length w - 7)
                      + sigma0 (w ! (length w - 15)) + w ! (length w - 16)])"

definition round256 :: "hash_state \<Rightarrow> word32 \<times> word32 \<Rightarrow> hash_state" where
  "round256 s kw =
     (case s of (a, b, c, d, e, f, g, h) \<Rightarrow>
        let t1 = h + Sigma1 e + Ch e f g + fst kw + snd kw;
            t2 = Sigma0 a + Maj a b c
        in (t1 + t2, a, b, c, d + t1, e, f, g))"

definition add_state :: "hash_state \<Rightarrow> hash_state \<Rightarrow> hash_state" where
  "add_state s t =
     (case s of (a, b, c, d, e, f, g, h) \<Rightarrow>
      case t of (a', b', c', d', e', f', g', h') \<Rightarrow>
        (a + a', b + b', c + c', d + d', e + e', f + f', g + g', h + h'))"

definition compress :: "hash_state \<Rightarrow> byte list \<Rightarrow> hash_state" where
  "compress s block =
     add_state s (foldl round256 s (zip K256 (schedule 48 (words_of 16 block))))"

fun blocks :: "nat \<Rightarrow> hash_state \<Rightarrow> byte list \<Rightarrow> hash_state" where
  "blocks 0 s bs = s"
| "blocks (Suc n) s bs = blocks n (compress s (take 64 bs)) (drop 64 bs)"

definition word_bytes :: "word32 \<Rightarrow> byte list" where
  "word_bytes w = [ucast (drop_bit 24 w), ucast (drop_bit 16 w), ucast (drop_bit 8 w), ucast w]"

definition state_bytes :: "hash_state \<Rightarrow> byte list" where
  "state_bytes s =
     (case s of (a, b, c, d, e, f, g, h) \<Rightarrow>
        word_bytes a @ word_bytes b @ word_bytes c @ word_bytes d
        @ word_bytes e @ word_bytes f @ word_bytes g @ word_bytes h)"

definition sha256 :: "byte list \<Rightarrow> byte list" where
  "sha256 m = (let p = pad m in state_bytes (blocks (length p div 64) H256 p))"

text \<open>HMAC with a 64 byte block: a longer key is hashed first, a shorter one zero-filled.\<close>

definition hmac_key_block :: "byte list \<Rightarrow> byte list" where
  "hmac_key_block k =
     (let k' = (if length k > 64 then sha256 k else k) in k' @ replicate (64 - length k') 0)"

definition hmac_sha256 :: "byte list \<Rightarrow> byte list \<Rightarrow> byte list" where
  "hmac_sha256 k m =
     (let kb = hmac_key_block k
      in sha256 (map (\<lambda>b. b XOR 0x5c) kb @ sha256 (map (\<lambda>b. b XOR 0x36) kb @ m)))"

subsection \<open>Strings, buffers and the \<^verbatim>\<open>Hmac\<close> object\<close>

definition utf8_bytes :: "string \<Rightarrow> byte list" where
  "utf8_bytes s = map of_char s"

definition hex_digit :: "nat \<Rightarrow> char" where
  "hex_digit n = ''0123456789abcdef'' ! n"

definition hex :: "byte list \<Rightarrow> string" where
  "hex bs = concat (map (\<lambda>b. [hex_digit (unat b div 16), hex_digit (unat b mod 16)]) bs)"

text \<open>
  \<^verbatim>\<open>createHmac('sha256', key)\<close> takes the key as a string (encoded as UTF-8) or as a
  \<^verbatim>\<open>Buffer\<close>; \<^verbatim>\<open>update\<close> appends the bytes of a string; \<^verbatim>\<open>digest('hex')\<close> returns the
  MAC in lowercase hexadecimal. The log records every object that was digested, in order.
\<close>

datatype key_like = KeyString string | KeyBuffer "byte list"

definition Buffer_from_utf8 :: "string \<Rightarrow> key_like" where
  "Buffer_from_utf8 s = KeyBuffer (utf8_bytes s)"

record Hmac =
  hmac_key :: "byte list"
  hmac_data :: "byte list"

type_synonym crypto_log = "Hmac list"

definition createHmac :: "key_like \<Rightarrow> Hmac" where
  "createHmac k =
     \<lparr>hmac_key = (case k of KeyString s \<Rightarrow> utf8_bytes s | KeyBuffer b \<Rightarrow> b), hmac_data = []\<rparr>"

definition hmac_update :: "Hmac \<Rightarrow> string \<Rightarrow> Hmac" where
  "hmac_update h s = h\<lparr>hmac_data := hmac_data h @ utf8_bytes s\<rparr>"

definition digest_hex :: "Hmac \<Rightarrow> crypto_log \<Rightarrow> string \<times> crypto_log" where
  "digest_hex h log = (hex (hmac_sha256 (hmac_key h) (hmac_data h)), log @ [h])"

subsection \<open>Numbers as strings\<close>

text \<open>
  \<^verbatim>\<open>String(n)\<close> and \<^verbatim>\<open>n.toString()\<close> of an integral number: decimal digits, a minus
  sign for a negative one. \<^verbatim>\<open>Math.floor(n / 30000)\<close> is \<open>n div 30000\<close>, which rounds
  towards minus infinity as \<^verbatim>\<open>Math.floor\<close> does. Both hold for every value
  \<^verbatim>\<open>Date.now()\<close> can return: an integral number of milliseconds of magnitude at most
  8640000000000000, where the division is exact enough for the floor and the string has
  no exponent.
\<close>

definition digit_char :: "nat \<Rightarrow> char" where
  "digit_char d = char_of (48 + d)"

fun digits :: "nat \<Rightarrow> string" where
  "digits n = (if n < 10 then [digit_char n] else digits (n div 10) @ [digit_char (n mod 10)])"

declare digits.simps [simp del]

definition Number_toString :: "int \<Rightarrow> string" where
  "Number_toString n = (if n < 0 then CHR ''-'' # digits (nat (- n)) else digits (nat n))"

text \<open>Reading a digit string back, the inverse of \<open>digits\<close>.\<close>

definition digit_val :: "char \<Rightarrow> nat" where
  "digit_val c = of_char c - 48"

definition digits_val :: "string \<Rightarrow> nat" where
  "digits_val s = foldl (\<lambda>a c. 10 * a + digit_val c) 0 s"

subsection \<open>Configuration and types of \<^verbatim>\<open>src/src/index.ts\<close>\<close>

text \<open>
  The process environment and the clock are the inputs the code reads besides its
  arguments. \<^verbatim>\<open>process.env.X || d\<close> is \<open>d\<close> when the variable is unset or empty.
\<close>

record process_env =
  PORT :: "string option"
  CS_BASE_URL :: "string option"
  CS_API_KEY :: "string option"
  CS_API_SECRET :: "string option"
  CS_SYMBOL :: "string option"

record world =
  env :: process_env
  Date_now :: int

definition or_default :: "string option \<Rightarrow> string \<Rightarrow> string" where
  "or_default v d = (case v of None \<Rightarrow> d | Some s \<Rightarrow> if s = [] then d else s)"

definition BASE_URL :: "process_env \<Rightarrow> string" where
  "BASE_URL e = or_default (CS_BASE_URL e) ''https://api.coinstore.com/api''"

definition API_KEY :: "process_env \<Rightarrow> string" where
  "API_KEY e = or_default (CS_API_KEY e) []"

definition API_SECRET :: "process_env \<Rightarrow> string" where
  "API_SECRET e = or_default (CS_API_SECRET e) []"

text \<open>
  The interfaces \<^verbatim>\<open>SignHeaders\<close> and \<^verbatim>\<open>SignParams\<close>; the headers are named with
  underscores for hyphens, and the field \<open>http_method\<close> is the parameter
  \<^verbatim>\<open>method\<close> of the source.
\<close>

record SignHeaders =
  X_CS_APIKEY :: string
  X_CS_EXPIRES :: string
  X_CS_SIGN :: string
  Content_Type :: string

record SignParams =
  http_method :: string
  queryString :: "string option"
  body :: "string option"

datatype error = Error string

text \<open>A destructured parameter with a default: the default stands in for \<^verbatim>\<open>undefined\<close>.\<close>

definition param_default :: "string option \<Rightarrow> string \<Rightarrow> string" where
  "param_default v d = (case v of None \<Rightarrow> d | Some s \<Rightarrow> s)"

subsection \<open>\<^verbatim>\<open>computeSignHeaders\<close> (\<^verbatim>\<open>src/src/index.ts\<close>)\<close>

definition computeSignHeaders ::
  "world \<Rightarrow> SignParams \<Rightarrow> crypto_log \<Rightarrow> (error + SignHeaders) \<times> crypto_log" where
  "computeSignHeaders w p log =
     (let queryString = param_default (queryString p) [];
          body = param_default (body p) []
      in if API_KEY (env w) = [] \<or> API_SECRET (env w) = []
         then (Inl (Error ''Missing CS_API_KEY/CS_API_SECRET''), log)
         else
           let expires = Date_now w;
               timeBucket = Number_toString (expires div 30000);
               hmac1 = createHmac (KeyString (API_SECRET (env w)));
               hmac1 = hmac_update hmac1 timeBucket;
               (key, log) = digest_hex hmac1 log;
               payload = queryString @ body;
               hmac2 = createHmac (KeyString key);
               hmac2 = hmac_update hmac2 payload;
               (sign, log) = digest_hex hmac2 log
           in (Inr \<lparr>X_CS_APIKEY = API_KEY (env w),
                    X_CS_EXPIRES = Number_toString expires,
                    X_CS_SIGN = sign,
                    Content_Type = ''application/json''\<rparr>, log))"

text \<open>
  \<^verbatim>\<open>getBalances\<close> signs an empty query string and an empty body and sends a GET request;
  the model stops at the request handed to the HTTP client.
\<close>

record request =
  req_method :: string
  req_url :: string
  req_headers :: SignHeaders
  req_data :: "string option"

definition getBalances ::
  "world \<Rightarrow> crypto_log \<Rightarrow> (error + request) \<times> crypto_log" where
  "getBalances w log =
     (let path = ''/spot/accountList'';
          url = BASE_URL (env w) @ path;
          (r, log) = computeSignHeaders w
             \<lparr>http_method = ''GET'', queryString = Some [], body = Some []\<rparr> log
      in (case r of
            Inl e \<Rightarrow> (Inl e, log)
          | Inr headers \<Rightarrow>
              (Inr \<lparr>req_method = ''GET'', req_url = url, req_headers = headers,
                     req_data = None\<rparr>, log)))"

subsection \<open>\<^verbatim>\<open>src/js/lasttrade.js\<close>: the script \<^verbatim>\<open>main\<close>\<close>

definition main :: "world \<Rightarrow> crypto_log \<Rightarrow> request \<times> crypto_log" where
  "main w log =
     (let url = ''https://api.coinstore.com/api/trade/match/accountMatches?symbol=PPOUSDT'';
          apiKey = ''ad559bf0b78866a137e4ad5e3fcbcfda'';
          secretKey = ''506cebf2251fc7fabbc80a68a72988c7'';
          expires = Date_now w;
          expiresKey = Number_toString (expires div 30000);
          (key, log) = digest_hex (hmac_update (createHmac (KeyString secretKey)) expiresKey) log;
          payload = ''symbol=PPOUSDT'';
          (signature, log) =
             digest_hex (hmac_update (createHmac (Buffer_from_utf8 key)) payload) log;
          headers = \<lparr>X_CS_APIKEY = apiKey,
                     X_CS_EXPIRES = Number_toString expires,
                     X_CS_SIGN = signature,
                     Content_Type = ''application/json''\<rparr>
      in (\<lparr>req_method = ''GET'', req_url = url, req_headers = headers, req_data = None\<rparr>,
          log))"

subsection \<open>\<^verbatim>\<open>src/js/lasttrade.js\<close>: the server with \<^verbatim>\<open>createSignedHeaders\<close>\<close>

text \<open>
  The same environment variables are read; a missing credential only prints a warning at
  start-up. \<^verbatim>\<open>createSignedHeaders\<close> has no \<^verbatim>\<open>method\<close> parameter and no guard.
\<close>

record SignedParams =
  sp_queryString :: "string option"
  sp_body :: "string option"

definition createSignedHeaders ::
  "world \<Rightarrow> SignedParams \<Rightarrow> crypto_log \<Rightarrow> SignHeaders \<times> crypto_log" where
  "createSignedHeaders w p log =
     (let queryString = param_default (sp_queryString p) [];
          body = param_default (sp_body p) [];
          expires = Date_now w;
          timeBucket = Number_toString (expires div 30000);
          hmac1 = createHmac (KeyString (API_SECRET (env w)));
          hmac1 = hmac_update hmac1 timeBucket;
          (key, log) = digest_hex hmac1 log;
          payload = queryString @ body;
          hmac2 = createHmac (KeyString key);
          hmac2 = hmac_update hmac2 payload;
          (sign, log) = digest_hex hmac2 log;
          headers = \<lparr>X_CS_APIKEY = API_KEY (env w),
                     X_CS_EXPIRES = Number_toString expires,
                     X_CS_SIGN = sign,
                     Content_Type = ''application/json''\<rparr>
      in (headers, log))"

text \<open>\<^verbatim>\<open>JSON.stringify({})\<close>, the only object this file serialises by itself.\<close>

definition JSON_stringify_empty_object :: string where
  "JSON_stringify_empty_object = ''{}''"

definition getBalances_js :: "world \<Rightarrow> crypto_log \<Rightarrow> request \<times> crypto_log" where
  "getBalances_js w log =
     (let path = ''/spot/accountList'';
          url = BASE_URL (env w) @ path;
          bodyStr = JSON_stringify_empty_object;
          (headers, log) = createSignedHeaders w
             \<lparr>sp_queryString = Some [], sp_body = Some bodyStr\<rparr> log
      in (\<lparr>req_method = ''POST'', req_url = url, req_headers = headers,
            req_data = Some JSON_stringify_empty_object\<rparr>, log))"

subsection \<open>The signing scheme in the specification's words\<close>

text \<open>
  The time bucket is the floor of the timestamp over 30000, as a decimal string; the
  derived key is the hexadecimal HMAC-SHA256 of the bucket string under the API secret;
  the signature is the hexadecimal HMAC-SHA256 of the payload under the text of the
  derived key; the payload is the query string followed by the body. The code is compared
  with these below.
\<close>

definition spec_timeBucket :: "int \<Rightarrow> string" where
  "spec_timeBucket nowMillis = Number_toString (nowMillis div 30000)"

definition spec_derivedKey :: "string \<Rightarrow> int \<Rightarrow> string" where
  "spec_derivedKey apiSecret nowMillis =
     hex (hmac_sha256 (utf8_bytes apiSecret) (utf8_bytes (spec_timeBucket nowMillis)))"

definition spec_signature :: "string \<Rightarrow> int \<Rightarrow> string \<Rightarrow> string" where
  "spec_signature apiSecret nowMillis payload =
     hex (hmac_sha256 (utf8_bytes (spec_derivedKey apiSecret nowMillis)) (utf8_bytes payload))"

text \<open>An omitted query string or body counts as the empty string.\<close>

definition payload_of :: "string option \<Rightarrow> string option \<Rightarrow> string" where
  "payload_of q b = param_default q [] @ param_default b []"

definition spec_signedHeaders :: "string \<Rightarrow> string \<Rightarrow> int \<Rightarrow> string \<Rightarrow> SignHeaders" where
  "spec_signedHeaders apiKey apiSecret nowMillis payload =
     \<lparr>X_CS_APIKEY = apiKey,
      X_CS_EXPIRES = Number_toString nowMillis,
      X_CS_SIGN = spec_signature apiSecret nowMillis payload,
      Content_Type = ''application/json''\<rparr>"

text \<open>The two \<^verbatim>\<open>Hmac\<close> objects a signing call digests, in order.\<close>

definition two_round_log :: "string \<Rightarrow> int \<Rightarrow> string \<Rightarrow> crypto_log" where
  "two_round_log apiSecret nowMillis payload =
     [\<lparr>hmac_key = utf8_bytes apiSecret, hmac_data = utf8_bytes (spec_timeBucket nowMillis)\<rparr>,
      \<lparr>hmac_key = utf8_bytes (spec_derivedKey apiSecret nowMillis),
       hmac_data = utf8_bytes payload\<rparr>]"

subsection \<open>Example environments\<close>

definition test_env :: process_env where
  "test_env = \<lparr>PORT = None, CS_BASE_URL = None, CS_API_KEY = Some ''k'',
                CS_API_SECRET = Some ''s'', CS_SYMBOL = None\<rparr>"

definition unset_env :: process_env where
  "unset_env = \<lparr>PORT = None, CS_BASE_URL = None, CS_API_KEY = None,
                 CS_API_SECRET = Some ''s'', CS_SYMBOL = None\<rparr>"

definition other_env :: process_env where
  "other_env = \<lparr>PORT = Some ''8080'', CS_BASE_URL = Some ''http://localhost'',
                 CS_API_KEY = Some ''k'', CS_API_SECRET = Some ''s'',
                 CS_SYMBOL = Some ''PPOUSDT''\<rparr>"

section \<open>Properties of the library model\<close>

subsection \<open>Digests are 32 bytes, their hexadecimal form 64 lowercase digits\<close>

lemma length_word_bytes: "length (word_bytes w) = 4"
  by (simp add: word_bytes_def)

lemma length_state_bytes: "length (state_bytes s) = 32"
  by (simp add: state_bytes_def length_word_bytes split: prod.splits)

lemma length_sha256: "length (sha256 m) = 32"
  by (simp add: sha256_def Let_def length_state_bytes)

lemma length_hmac_sha256: "length (hmac_sha256 k m) = 32"
  by (simp add: hmac_sha256_def Let_def length_sha256)

lemma length_hex: "length (hex bs) = 2 * length bs"
  by (induction bs) (simp_all add: hex_def)

lemma hex_digit_in: "n < 16 \<Longrightarrow> hex_digit n \<in> set ''0123456789abcdef''"
  unfolding hex_digit_def by (rule nth_mem) simp

lemma set_hex: "set (hex bs) \<subseteq> set ''0123456789abcdef''"
proof (induction bs)
  case Nil
  show ?case by (simp add: hex_def)
next
  case (Cons b bs)
  have "unat b < 256" using unsigned_less [of b] by simp
  then have "unat b div 16 < 16" by simp
  then have hi: "hex_digit (unat b div 16) \<in> set ''0123456789abcdef''" by (rule hex_digit_in)
  have lo: "hex_digit (unat b mod 16) \<in> set ''0123456789abcdef''" by (rule hex_digit_in) simp
  have "hex (b # bs) = hex_digit (unat b div 16) # hex_digit (unat b mod 16) # hex bs"
    by (simp add: hex_def)
  with hi lo Cons show ?case by simp
qed

text \<open>The hexadecimal form determines the bytes.\<close>

lemma hex_digit_inj: "i < 16 \<Longrightarrow> j < 16 \<Longrightarrow> hex_digit i = hex_digit j \<Longrightarrow> i = j"
  unfolding hex_digit_def
  using nth_eq_iff_index_eq [of "''0123456789abcdef''" i j] by simp

lemma hex_Cons:
  "hex (b # bs) = hex_digit (unat b div 16) # hex_digit (unat b mod 16) # hex bs"
  by (simp add: hex_def)

lemma byte_of_nibbles:
  fixes b c :: byte
  assumes "hex_digit (unat b div 16) = hex_digit (unat c div 16)"
    and "hex_digit (unat b mod 16) = hex_digit (unat c mod 16)"
  shows "b = c"
proof -
  have lb: "unat b < 256" using unsigned_less [of b] by simp
  have lc: "unat c < 256" using unsigned_less [of c] by simp
  have hi: "unat b div 16 = unat c div 16"
    using lb lc assms(1) by (intro hex_digit_inj) simp_all
  have lo: "unat b mod 16 = unat c mod 16"
    using assms(2) by (intro hex_digit_inj) simp_all
  have "unat b = 16 * (unat b div 16) + unat b mod 16" by simp
  also have "\<dots> = 16 * (unat c div 16) + unat c mod 16" by (simp only: hi lo)
  also have "\<dots> = unat c" by simp
  finally show ?thesis by (simp add: word_unat_eq_iff)
qed

lemma hex_inj: "hex bs = hex cs \<Longrightarrow> bs = cs"
proof (induction bs arbitrary: cs)
  case Nil
  then have "length (hex cs) = 0" by (simp add: hex_def)
  then show ?case by (simp add: length_hex)
next
  case (Cons b bs)
  from Cons.prems have "length (hex cs) = 2 * Suc (length bs)"
    by (metis length_hex length_Cons)
  then have "length cs = Suc (length bs)" by (simp add: length_hex)
  then obtain c cs' where cs: "cs = c # cs'" by (cases cs) auto
  with Cons.prems have "b = c" and "hex bs = hex cs'"
    by (auto simp add: hex_Cons intro: byte_of_nibbles)
  with Cons.IH cs show ?case by simp
qed

text \<open>The model computes the digest of the one-block example message of FIPS 180-4.\<close>

lemma sha256_abc:
  "hex (sha256 (utf8_bytes ''abc''))
   = ''ba7816bf8f01cfea414140de5dae2223b00361a396177a9cb410ff61f20015ad''"
  by code_simp

subsection \<open>Strings and their bytes\<close>

lemma length_utf8_bytes: "length (utf8_bytes s) = length s"
  by (simp add: utf8_bytes_def)

lemma utf8_bytes_append: "utf8_bytes (s @ t) = utf8_bytes s @ utf8_bytes t"
  by (simp add: utf8_bytes_def)

lemma utf8_bytes_Nil: "utf8_bytes [] = []"
  by (simp add: utf8_bytes_def)

lemma unat_of_char: "unat (of_char c :: byte) = of_char c"
proof -
  have "(of_char c :: byte) = of_nat (of_char c)" by (simp add: of_nat_of_char)
  then have "unat (of_char c :: byte) = (of_char c :: nat) mod 256"
    by (simp add: unat_of_nat del: of_nat_of_char)
  moreover have "(of_char c :: nat) < 256" by simp
  ultimately show ?thesis by simp
qed

lemma of_char_byte_inj: "(of_char c :: byte) = of_char d \<Longrightarrow> c = d"
proof -
  assume "(of_char c :: byte) = of_char d"
  then have "unat (of_char c :: byte) = unat (of_char d :: byte)" by simp
  then have "(of_char c :: nat) = of_char d" by (simp only: unat_of_char)
  then show "c = d" by simp
qed

lemma utf8_bytes_inj: "utf8_bytes s = utf8_bytes t \<Longrightarrow> s = t"
  unfolding utf8_bytes_def
  by (rule map_injective) (auto simp: inj_on_def dest: of_char_byte_inj)

subsection \<open>The decimal string of a number determines the number\<close>

lemma digits_small: "n < 10 \<Longrightarrow> digits n = [digit_char n]"
  by (simp add: digits.simps [of n])

lemma digits_large: "10 \<le> n \<Longrightarrow> digits n = digits (n div 10) @ [digit_char (n mod 10)]"
  by (simp add: digits.simps [of n])

lemma digit_char_numerals:
  "digit_char 0 = CHR ''0''" "digit_char 1 = CHR ''1''" "digit_char 2 = CHR ''2''"
  "digit_char 3 = CHR ''3''" "digit_char 4 = CHR ''4''" "digit_char 5 = CHR ''5''"
  "digit_char 6 = CHR ''6''" "digit_char 7 = CHR ''7''" "digit_char 8 = CHR ''8''"
  "digit_char 9 = CHR ''9''" "digit_char (Suc 0) = CHR ''1''"
  by code_simp+

lemma digit_val_digit_char: "d < 10 \<Longrightarrow> digit_val (digit_char d) = d"
  by (simp add: digit_val_def digit_char_def)

lemma digits_val_snoc: "digits_val (s @ [c]) = 10 * digits_val s + digit_val c"
  by (simp add: digits_val_def)

lemma digits_val_digits: "digits_val (digits n) = n"
proof (induction n rule: digits.induct)
  case (1 n)
  show ?case
  proof (cases "n < 10")
    case True
    then show ?thesis by (simp add: digits_small digits_val_def digit_val_digit_char)
  next
    case False
    then have "digits_val (digits n)
        = 10 * digits_val (digits (n div 10)) + digit_val (digit_char (n mod 10))"
      by (simp only: digits_large digits_val_snoc not_less)
    also have "\<dots> = 10 * (n div 10) + n mod 10"
      using 1 False by (simp add: digit_val_digit_char)
    finally show ?thesis by simp
  qed
qed

lemma digits_inj: "digits n = digits m \<Longrightarrow> n = m"
  by (metis digits_val_digits)

lemma digits_ge_48: "c \<in> set (digits n) \<Longrightarrow> (48::nat) \<le> of_char c"
proof (induction n rule: digits.induct)
  case (1 n)
  show ?case
  proof (cases "n < 10")
    case True
    with 1(2) show ?thesis by (simp add: digits_small digit_char_def)
  next
    case False
    with 1(2) have "c \<in> set (digits (n div 10)) \<or> c = digit_char (n mod 10)"
      by (auto simp add: digits_large)
    then show ?thesis
    proof
      assume "c \<in> set (digits (n div 10))"
      with 1(1) False show ?thesis by simp
    next
      assume "c = digit_char (n mod 10)"
      then show ?thesis by (simp add: digit_char_def)
    qed
  qed
qed

lemma digits_neq_minus: "digits n \<noteq> CHR ''-'' # s"
proof
  assume "digits n = CHR ''-'' # s"
  then have "CHR ''-'' \<in> set (digits n)" by simp
  then have "(48::nat) \<le> of_char CHR ''-''" by (rule digits_ge_48)
  then show False by simp
qed

lemma Number_toString_inj: "Number_toString n = Number_toString m \<Longrightarrow> n = m"
proof -
  assume a: "Number_toString n = Number_toString m"
  consider "n < 0" "m < 0" | "n < 0" "\<not> m < 0" | "\<not> n < 0" "m < 0" | "\<not> n < 0" "\<not> m < 0"
    by blast
  then show "n = m"
  proof cases
    case 1
    with a have "digits (nat (- n)) = digits (nat (- m))" by (simp add: Number_toString_def)
    then have "nat (- n) = nat (- m)" by (rule digits_inj)
    with 1 show ?thesis by simp
  next
    case 2
    with a have "digits (nat m) = CHR ''-'' # digits (nat (- n))"
      by (simp add: Number_toString_def)
    then show ?thesis by (simp add: digits_neq_minus)
  next
    case 3
    with a have "digits (nat n) = CHR ''-'' # digits (nat (- m))"
      by (simp add: Number_toString_def)
    then show ?thesis by (simp add: digits_neq_minus)
  next
    case 4
    with a have "digits (nat n) = digits (nat m)" by (simp add: Number_toString_def)
    then have "nat n = nat m" by (rule digits_inj)
    with 4 show ?thesis by simp
  qed
qed

lemmas Number_toString_eval =
  Number_toString_def digits_small digits_large digit_char_numerals

section \<open>The signers compute the two-round scheme\<close>

lemma computeSignHeaders_missing:
  "API_KEY (env w) = [] \<or> API_SECRET (env w) = [] \<Longrightarrow>
   computeSignHeaders w p log = (Inl (Error ''Missing CS_API_KEY/CS_API_SECRET''), log)"
  by (simp add: computeSignHeaders_def)

lemma computeSignHeaders_signed:
  "API_KEY (env w) \<noteq> [] \<Longrightarrow> API_SECRET (env w) \<noteq> [] \<Longrightarrow>
   computeSignHeaders w p log =
     (Inr (spec_signedHeaders (API_KEY (env w)) (API_SECRET (env w)) (Date_now w)
             (payload_of (queryString p) (body p))),
      log @ two_round_log (API_SECRET (env w)) (Date_now w) (payload_of (queryString p) (body p)))"
  by (simp add: computeSignHeaders_def Let_def digest_hex_def createHmac_def hmac_update_def
      spec_signedHeaders_def two_round_log_def spec_signature_def spec_derivedKey_def
      spec_timeBucket_def payload_of_def)

lemma createSignedHeaders_signed:
  "createSignedHeaders w p log =
     (spec_signedHeaders (API_KEY (env w)) (API_SECRET (env w)) (Date_now w)
        (payload_of (sp_queryString p) (sp_body p)),
      log @ two_round_log (API_SECRET (env w)) (Date_now w)
        (payload_of (sp_queryString p) (sp_body p)))"
  by (simp add: createSignedHeaders_def Let_def digest_hex_def createHmac_def hmac_update_def
      spec_signedHeaders_def two_round_log_def spec_signature_def spec_derivedKey_def
      spec_timeBucket_def payload_of_def)

lemma main_signed:
  "main w log =
     (\<lparr>req_method = ''GET'',
       req_url = ''https://api.coinstore.com/api/trade/match/accountMatches?symbol=PPOUSDT'',
       req_headers = spec_signedHeaders ''ad559bf0b78866a137e4ad5e3fcbcfda''
          ''506cebf2251fc7fabbc80a68a72988c7'' (Date_now w) ''symbol=PPOUSDT'',
       req_data = None\<rparr>,
      log @ two_round_log ''506cebf2251fc7fabbc80a68a72988c7'' (Date_now w) ''symbol=PPOUSDT'')"
  by (simp add: main_def Let_def digest_hex_def createHmac_def hmac_update_def
      Buffer_from_utf8_def spec_signedHeaders_def two_round_log_def spec_signature_def
      spec_derivedKey_def spec_timeBucket_def)

lemma getBalances_signer:
  "getBalances w log =
     (case computeSignHeaders w \<lparr>http_method = ''GET'', queryString = Some [], body = Some []\<rparr> log of
        (Inl e, log') \<Rightarrow> (Inl e, log')
      | (Inr h, log') \<Rightarrow>
          (Inr \<lparr>req_method = ''GET'', req_url = BASE_URL (env w) @ ''/spot/accountList'',
                 req_headers = h, req_data = None\<rparr>, log'))"
  by (simp add: getBalances_def Let_def split: prod.splits sum.splits)

lemma getBalances_js_signer:
  "getBalances_js w log =
     (case createSignedHeaders w \<lparr>sp_queryString = Some [], sp_body = Some ''{}''\<rparr> log of
        (h, log') \<Rightarrow>
          (\<lparr>req_method = ''POST'', req_url = BASE_URL (env w) @ ''/spot/accountList'',
             req_headers = h, req_data = Some ''{}''\<rparr>, log'))"
  by (simp add: getBalances_js_def Let_def JSON_stringify_empty_object_def split: prod.splits)

lemma API_KEY_Some: "API_KEY (e\<lparr>CS_API_KEY := Some k\<rparr>) = k"
  by (simp add: API_KEY_def or_default_def)

lemma API_SECRET_Some: "API_SECRET (e\<lparr>CS_API_SECRET := Some k\<rparr>) = k"
  by (simp add: API_SECRET_def or_default_def)

lemma API_KEY_other: "API_KEY (e\<lparr>CS_API_SECRET := v\<rparr>) = API_KEY e"
  by (simp add: API_KEY_def)

lemma derived_key_length: "length (spec_derivedKey s n) = 64"
  by (simp add: spec_derivedKey_def length_hex length_hmac_sha256)

lemma test_env_credentials: "API_KEY test_env = ''k''" "API_SECRET test_env = ''s''"
  by (simp_all add: test_env_def API_KEY_def API_SECRET_def or_default_def)

lemma unset_env_credentials: "API_KEY unset_env = []" "API_SECRET unset_env = ''s''"
  by (simp_all add: unset_env_def API_KEY_def API_SECRET_def or_default_def)

lemma other_env_credentials: "API_KEY other_env = ''k''" "API_SECRET other_env = ''s''"
  by (simp_all add: other_env_def API_KEY_def API_SECRET_def or_default_def)

text \<open>
  The bucket enters the sign header through two MACs only. Two time stamps in different
  buckets have different bucket strings, so if they lead to the same signature for the
  same secret and payload, HMAC-SHA256 has produced the same MAC for two different inputs,
  in the first round or in the second.
\<close>

lemma different_bucket_same_sign_collides:
  assumes "n1 div 30000 \<noteq> n2 div 30000"
    and "spec_signature s n1 pl = spec_signature s n2 pl"
  shows "\<exists>k1 m1 k2 m2. (k1, m1) \<noteq> (k2, m2) \<and> hmac_sha256 k1 m1 = hmac_sha256 k2 m2"
proof -
  let ?b1 = "utf8_bytes (spec_timeBucket n1)" and ?b2 = "utf8_bytes (spec_timeBucket n2)"
  let ?d1 = "hmac_sha256 (utf8_bytes s) ?b1" and ?d2 = "hmac_sha256 (utf8_bytes s) ?b2"
  have "spec_timeBucket n1 \<noteq> spec_timeBucket n2"
    using assms(1) by (auto simp add: spec_timeBucket_def dest: Number_toString_inj)
  then have b: "?b1 \<noteq> ?b2" by (auto dest: utf8_bytes_inj)
  show ?thesis
  proof (cases "?d1 = ?d2")
    case True
    with b have "(utf8_bytes s, ?b1) \<noteq> (utf8_bytes s, ?b2) \<and> ?d1 = ?d2" by simp
    then show ?thesis by blast
  next
    case False
    then have "hex ?d1 \<noteq> hex ?d2" by (auto dest: hex_inj)
    then have k: "utf8_bytes (hex ?d1) \<noteq> utf8_bytes (hex ?d2)" by (auto dest: utf8_bytes_inj)
    from assms(2) have "hmac_sha256 (utf8_bytes (hex ?d1)) (utf8_bytes pl)
        = hmac_sha256 (utf8_bytes (hex ?d2)) (utf8_bytes pl)"
      by (auto simp add: spec_signature_def spec_derivedKey_def dest: hex_inj)
    with k have "(utf8_bytes (hex ?d1), utf8_bytes pl) \<noteq> (utf8_bytes (hex ?d2), utf8_bytes pl)
        \<and> hmac_sha256 (utf8_bytes (hex ?d1)) (utf8_bytes pl)
          = hmac_sha256 (utf8_bytes (hex ?d2)) (utf8_bytes pl)" by simp
    then show ?thesis by blast
  qed
qed

section \<open>The claims\<close>

text \<open>
  C1. With API key \<open>k\<close>, API secret \<open>s\<close>, clock 1700000000000, query string
  \<open>symbol=BTCUSDT\<close> and an empty body, \<^verbatim>\<open>computeSignHeaders\<close> returns the expires
  header \<open>1700000000000\<close>, uses the time bucket \<open>1700000000000 div 30000 = 56666666\<close>
  as a decimal string, and returns as sign header the lowercase hexadecimal HMAC-SHA256 of
  \<open>symbol=BTCUSDT\<close> keyed by the lowercase hexadecimal HMAC-SHA256 of the bucket string
  keyed by \<open>s\<close>; the API key header is \<open>k\<close> and the content type
  \<open>application/json\<close>. The other environment variables, the method and the earlier
  digests are arbitrary.
\<close>

theorem C1_end_to_end:
  "computeSignHeaders
     \<lparr>env = e\<lparr>CS_API_KEY := Some ''k'', CS_API_SECRET := Some ''s''\<rparr>,
      Date_now = 1700000000000\<rparr>
     \<lparr>http_method = m, queryString = Some ''symbol=BTCUSDT'', body = Some []\<rparr> log
   = (Inr \<lparr>X_CS_APIKEY = ''k'',
           X_CS_EXPIRES = ''1700000000000'',
           X_CS_SIGN = hex (hmac_sha256
              (utf8_bytes (hex (hmac_sha256 (utf8_bytes ''s'') (utf8_bytes ''56666666''))))
              (utf8_bytes ''symbol=BTCUSDT'')),
           Content_Type = ''application/json''\<rparr>,
      log @ [\<lparr>hmac_key = utf8_bytes ''s'', hmac_data = utf8_bytes ''56666666''\<rparr>,
             \<lparr>hmac_key = utf8_bytes (hex (hmac_sha256 (utf8_bytes ''s'') (utf8_bytes ''56666666''))),
              hmac_data = utf8_bytes ''symbol=BTCUSDT''\<rparr>])
   \<and> (1700000000000 :: int) div 30000 = 56666666
   \<and> Number_toString 56666666 = ''56666666''"
proof -
  have b: "(1700000000000 :: int) div 30000 = 56666666" by simp
  have s1: "Number_toString 56666666 = ''56666666''"
    by (simp add: Number_toString_eval)
  have s2: "Number_toString 1700000000000 = ''1700000000000''"
    by (simp add: Number_toString_eval)
  show ?thesis
    by (simp add: computeSignHeaders_signed API_KEY_Some API_SECRET_Some API_KEY_other
        spec_signedHeaders_def two_round_log_def spec_signature_def spec_derivedKey_def
        spec_timeBucket_def payload_of_def param_default_def b s1 s2)
qed

text \<open>
  C2. For every non-empty API secret, timestamp, query string and body the sign header is
  computed in two rounds: the derived key is the hexadecimal HMAC-SHA256, keyed by the
  secret, of the decimal string of \<open>Date_now w div 30000\<close>, and the signature is the
  hexadecimal HMAC-SHA256 of the payload keyed by the bytes of the derived key's
  hexadecimal text. That key has 64 bytes, all of them lowercase hexadecimal digits, and is
  not the 32 byte MAC it spells. With an empty API key the call raises and there is no
  sign header. The script \<^verbatim>\<open>main\<close> of \<^verbatim>\<open>lasttrade.js\<close> signs in the same two rounds
  with its own secret, passing the key as a buffer of the UTF-8 bytes of the text.
\<close>

theorem C2_two_round_scheme:
  assumes "API_SECRET (env w) \<noteq> []"
  shows
   "(API_KEY (env w) \<noteq> [] \<longrightarrow>
       (\<exists>h. computeSignHeaders w p log =
          (Inr h,
           log @ [\<lparr>hmac_key = utf8_bytes (API_SECRET (env w)),
                    hmac_data = utf8_bytes (Number_toString (Date_now w div 30000))\<rparr>,
                  \<lparr>hmac_key = utf8_bytes (spec_derivedKey (API_SECRET (env w)) (Date_now w)),
                    hmac_data = utf8_bytes (payload_of (queryString p) (body p))\<rparr>])
          \<and> X_CS_SIGN h = hex (hmac_sha256
                (utf8_bytes (spec_derivedKey (API_SECRET (env w)) (Date_now w)))
                (utf8_bytes (payload_of (queryString p) (body p))))))
    \<and> (API_KEY (env w) = [] \<longrightarrow>
         computeSignHeaders w p log = (Inl (Error ''Missing CS_API_KEY/CS_API_SECRET''), log))
    \<and> spec_derivedKey (API_SECRET (env w)) (Date_now w)
        = hex (hmac_sha256 (utf8_bytes (API_SECRET (env w)))
                 (utf8_bytes (Number_toString (Date_now w div 30000))))
    \<and> length (utf8_bytes (spec_derivedKey (API_SECRET (env w)) (Date_now w))) = 64
    \<and> set (spec_derivedKey (API_SECRET (env w)) (Date_now w)) \<subseteq> set ''0123456789abcdef''
    \<and> utf8_bytes (spec_derivedKey (API_SECRET (env w)) (Date_now w))
        \<noteq> hmac_sha256 (utf8_bytes (API_SECRET (env w)))
             (utf8_bytes (Number_toString (Date_now w div 30000)))
    \<and> (\<exists>r. main w log =
          (r, log @ [\<lparr>hmac_key = utf8_bytes ''506cebf2251fc7fabbc80a68a72988c7'',
                       hmac_data = utf8_bytes (Number_toString (Date_now w div 30000))\<rparr>,
                     \<lparr>hmac_key = utf8_bytes
                        (spec_derivedKey ''506cebf2251fc7fabbc80a68a72988c7'' (Date_now w)),
                       hmac_data = utf8_bytes ''symbol=PPOUSDT''\<rparr>])
          \<and> X_CS_SIGN (req_headers r) = hex (hmac_sha256
                (utf8_bytes (spec_derivedKey ''506cebf2251fc7fabbc80a68a72988c7'' (Date_now w)))
                (utf8_bytes ''symbol=PPOUSDT'')))"
proof -
  let ?s = "API_SECRET (env w)" and ?n = "Date_now w"
  have len: "length (utf8_bytes (spec_derivedKey ?s ?n)) = 64"
    by (simp add: length_utf8_bytes derived_key_length)
  have "length (hmac_sha256 (utf8_bytes ?s) (utf8_bytes (Number_toString (?n div 30000)))) = 32"
    by (rule length_hmac_sha256)
  with len have ne: "utf8_bytes (spec_derivedKey ?s ?n)
      \<noteq> hmac_sha256 (utf8_bytes ?s) (utf8_bytes (Number_toString (?n div 30000)))"
    by auto
  have hexd: "set (spec_derivedKey ?s ?n) \<subseteq> set ''0123456789abcdef''"
    unfolding spec_derivedKey_def by (rule set_hex)
  have ok: "API_KEY (env w) \<noteq> [] \<longrightarrow>
       (\<exists>h. computeSignHeaders w p log =
          (Inr h,
           log @ [\<lparr>hmac_key = utf8_bytes ?s,
                    hmac_data = utf8_bytes (Number_toString (?n div 30000))\<rparr>,
                  \<lparr>hmac_key = utf8_bytes (spec_derivedKey ?s ?n),
                    hmac_data = utf8_bytes (payload_of (queryString p) (body p))\<rparr>])
          \<and> X_CS_SIGN h = hex (hmac_sha256 (utf8_bytes (spec_derivedKey ?s ?n))
                (utf8_bytes (payload_of (queryString p) (body p)))))"
    using assms
    by (simp add: computeSignHeaders_signed spec_signedHeaders_def two_round_log_def
        spec_signature_def spec_timeBucket_def)
  have missing: "API_KEY (env w) = [] \<longrightarrow>
         computeSignHeaders w p log = (Inl (Error ''Missing CS_API_KEY/CS_API_SECRET''), log)"
    by (simp add: computeSignHeaders_missing)
  have dk: "spec_derivedKey ?s ?n
        = hex (hmac_sha256 (utf8_bytes ?s) (utf8_bytes (Number_toString (?n div 30000))))"
    by (simp add: spec_derivedKey_def spec_timeBucket_def)
  have script: "\<exists>r. main w log =
          (r, log @ [\<lparr>hmac_key = utf8_bytes ''506cebf2251fc7fabbc80a68a72988c7'',
                       hmac_data = utf8_bytes (Number_toString (Date_now w div 30000))\<rparr>,
                     \<lparr>hmac_key = utf8_bytes
                        (spec_derivedKey ''506cebf2251fc7fabbc80a68a72988c7'' (Date_now w)),
                       hmac_data = utf8_bytes ''symbol=PPOUSDT''\<rparr>])
          \<and> X_CS_SIGN (req_headers r) = hex (hmac_sha256
                (utf8_bytes (spec_derivedKey ''506cebf2251fc7fabbc80a68a72988c7'' (Date_now w)))
                (utf8_bytes ''symbol=PPOUSDT''))"
    by (simp add: main_signed spec_signedHeaders_def two_round_log_def spec_signature_def
        spec_timeBucket_def)
  from ok missing dk len hexd ne script show ?thesis by blast
qed

theorem C2_two_round_scheme_witness:
  "API_SECRET (env \<lparr>env = test_env, Date_now = 1700000000000\<rparr>) \<noteq> []
   \<and> (\<exists>h. computeSignHeaders \<lparr>env = test_env, Date_now = 1700000000000\<rparr>
            \<lparr>http_method = ''GET'', queryString = Some ''symbol=BTCUSDT'', body = None\<rparr> []
          = (Inr h,
             [\<lparr>hmac_key = utf8_bytes ''s'', hmac_data = utf8_bytes ''56666666''\<rparr>,
              \<lparr>hmac_key = utf8_bytes (spec_derivedKey ''s'' 1700000000000),
               hmac_data = utf8_bytes ''symbol=BTCUSDT''\<rparr>])
        \<and> X_CS_SIGN h = hex (hmac_sha256 (utf8_bytes (spec_derivedKey ''s'' 1700000000000))
               (utf8_bytes ''symbol=BTCUSDT'')))"
proof -
  have s1: "Number_toString 56666666 = ''56666666''"
    by (simp add: Number_toString_eval)
  show ?thesis
    using C2_two_round_scheme [of "\<lparr>env = test_env, Date_now = 1700000000000\<rparr>"
        "\<lparr>http_method = ''GET'', queryString = Some ''symbol=BTCUSDT'', body = None\<rparr>" "[]"]
    by (auto simp add: test_env_credentials payload_of_def param_default_def s1)
qed

text \<open>
  C3. For every query string \<open>q\<close> and body \<open>b\<close>, empty or not, the message the final
  HMAC signs is \<open>q @ b\<close>: the query string followed by the body, character for
  character, with nothing inserted, reordered or decoded. This holds for
  \<^verbatim>\<open>computeSignHeaders\<close> whenever it returns headers and for \<^verbatim>\<open>createSignedHeaders\<close>
  always; the sign header is the digest of that object. The signed message is empty
  exactly when both strings are empty.
\<close>

theorem C3_payload_is_concatenation:
  "(API_KEY (env w) \<noteq> [] \<and> API_SECRET (env w) \<noteq> [] \<longrightarrow>
      (\<exists>h k. computeSignHeaders w \<lparr>http_method = m, queryString = Some q, body = Some b\<rparr> log
             = (Inr h, log @ [k, \<lparr>hmac_key = utf8_bytes (spec_derivedKey (API_SECRET (env w)) (Date_now w)),
                                  hmac_data = utf8_bytes (q @ b)\<rparr>])
           \<and> X_CS_SIGN h = hex (hmac_sha256
                 (utf8_bytes (spec_derivedKey (API_SECRET (env w)) (Date_now w)))
                 (utf8_bytes (q @ b)))))
   \<and> (\<exists>h k. createSignedHeaders w \<lparr>sp_queryString = Some q, sp_body = Some b\<rparr> log
             = (h, log @ [k, \<lparr>hmac_key = utf8_bytes (spec_derivedKey (API_SECRET (env w)) (Date_now w)),
                              hmac_data = utf8_bytes (q @ b)\<rparr>])
           \<and> X_CS_SIGN h = hex (hmac_sha256
                 (utf8_bytes (spec_derivedKey (API_SECRET (env w)) (Date_now w)))
                 (utf8_bytes (q @ b))))
   \<and> (utf8_bytes (q @ b) = [] \<longleftrightarrow> q = [] \<and> b = [])"
  by (simp add: computeSignHeaders_signed createSignedHeaders_signed spec_signedHeaders_def
      two_round_log_def spec_signature_def payload_of_def param_default_def)
     (simp add: utf8_bytes_def)

theorem C3_payload_is_concatenation_witness:
  "(\<exists>h k. computeSignHeaders \<lparr>env = test_env, Date_now = 1700000000000\<rparr>
            \<lparr>http_method = ''POST'', queryString = Some ''b=2&a=%201'', body = Some ''[1,2]''\<rparr> []
          = (Inr h, [k, \<lparr>hmac_key = utf8_bytes (spec_derivedKey ''s'' 1700000000000),
                          hmac_data = utf8_bytes ''b=2&a=%201[1,2]''\<rparr>]))"
  using C3_payload_is_concatenation [of "\<lparr>env = test_env, Date_now = 1700000000000\<rparr>"
        "''POST''" "''b=2&a=%201''" "''[1,2]''" "[]"]
  by (auto simp add: test_env_credentials)

text \<open>
  C4. \<^verbatim>\<open>computeSignHeaders\<close> raises the configuration error if and only if the API key
  or the API secret is empty, and then no HMAC has been digested: the log is returned as it
  was. When both are non-empty it returns all four headers, after exactly two digests:
  the API key, the decimal clock value, the 64 character digest of the second
  \<^verbatim>\<open>Hmac\<close> object, and \<open>application/json\<close>.
\<close>

theorem C4_configuration_error:
  "(isl (fst (computeSignHeaders w p log)) \<longleftrightarrow> API_KEY (env w) = [] \<or> API_SECRET (env w) = [])
   \<and> (API_KEY (env w) = [] \<or> API_SECRET (env w) = [] \<longrightarrow>
        computeSignHeaders w p log = (Inl (Error ''Missing CS_API_KEY/CS_API_SECRET''), log))
   \<and> (API_KEY (env w) \<noteq> [] \<and> API_SECRET (env w) \<noteq> [] \<longrightarrow>
        (\<exists>h d1 d2. computeSignHeaders w p log = (Inr h, log @ [d1, d2])
           \<and> X_CS_APIKEY h = API_KEY (env w)
           \<and> X_CS_EXPIRES h = Number_toString (Date_now w)
           \<and> X_CS_SIGN h = hex (hmac_sha256 (hmac_key d2) (hmac_data d2))
           \<and> length (X_CS_SIGN h) = 64
           \<and> Content_Type h = ''application/json''))"
proof -
  have err: "API_KEY (env w) = [] \<or> API_SECRET (env w) = [] \<longrightarrow>
        computeSignHeaders w p log = (Inl (Error ''Missing CS_API_KEY/CS_API_SECRET''), log)"
    by (simp add: computeSignHeaders_missing)
  have ok: "API_KEY (env w) \<noteq> [] \<and> API_SECRET (env w) \<noteq> [] \<longrightarrow>
        (\<exists>h d1 d2. computeSignHeaders w p log = (Inr h, log @ [d1, d2])
           \<and> X_CS_APIKEY h = API_KEY (env w)
           \<and> X_CS_EXPIRES h = Number_toString (Date_now w)
           \<and> X_CS_SIGN h = hex (hmac_sha256 (hmac_key d2) (hmac_data d2))
           \<and> length (X_CS_SIGN h) = 64
           \<and> Content_Type h = ''application/json'')"
    by (simp add: computeSignHeaders_signed spec_signedHeaders_def two_round_log_def
        spec_signature_def length_hex length_hmac_sha256)
  have "isl (fst (computeSignHeaders w p log)) \<longleftrightarrow>
        API_KEY (env w) = [] \<or> API_SECRET (env w) = []"
  proof (cases "API_KEY (env w) = [] \<or> API_SECRET (env w) = []")
    case True
    with err show ?thesis by simp
  next
    case False
    with ok obtain h d1 d2 where "computeSignHeaders w p log = (Inr h, log @ [d1, d2])"
      by blast
    with False show ?thesis by simp
  qed
  with err ok show ?thesis by blast
qed

theorem C4_configuration_error_witness:
  "computeSignHeaders \<lparr>env = unset_env, Date_now = 1700000000000\<rparr>
       \<lparr>http_method = ''GET'', queryString = Some ''symbol=BTCUSDT'', body = Some []\<rparr> []
     = (Inl (Error ''Missing CS_API_KEY/CS_API_SECRET''), [])
   \<and> (\<exists>h d1 d2. computeSignHeaders \<lparr>env = test_env, Date_now = 1700000000000\<rparr>
       \<lparr>http_method = ''GET'', queryString = Some ''symbol=BTCUSDT'', body = Some []\<rparr> []
         = (Inr h, [d1, d2])
       \<and> X_CS_APIKEY h = ''k'' \<and> X_CS_EXPIRES h = ''1700000000000''
       \<and> length (X_CS_SIGN h) = 64 \<and> Content_Type h = ''application/json'')"
proof -
  have s2: "Number_toString 1700000000000 = ''1700000000000''"
    by (simp add: Number_toString_eval)
  have a: "computeSignHeaders \<lparr>env = unset_env, Date_now = 1700000000000\<rparr>
       \<lparr>http_method = ''GET'', queryString = Some ''symbol=BTCUSDT'', body = Some []\<rparr> []
     = (Inl (Error ''Missing CS_API_KEY/CS_API_SECRET''), [])"
    using C4_configuration_error [of "\<lparr>env = unset_env, Date_now = 1700000000000\<rparr>"
        "\<lparr>http_method = ''GET'', queryString = Some ''symbol=BTCUSDT'', body = Some []\<rparr>" "[]"]
    by (simp add: unset_env_credentials)
  have b: "\<exists>h d1 d2. computeSignHeaders \<lparr>env = test_env, Date_now = 1700000000000\<rparr>
       \<lparr>http_method = ''GET'', queryString = Some ''symbol=BTCUSDT'', body = Some []\<rparr> []
         = (Inr h, [d1, d2])
       \<and> X_CS_APIKEY h = ''k'' \<and> X_CS_EXPIRES h = ''1700000000000''
       \<and> length (X_CS_SIGN h) = 64 \<and> Content_Type h = ''application/json''"
    using C4_configuration_error [of "\<lparr>env = test_env, Date_now = 1700000000000\<rparr>"
        "\<lparr>http_method = ''GET'', queryString = Some ''symbol=BTCUSDT'', body = Some []\<rparr>" "[]"]
    by (auto simp add: test_env_credentials s2)
  from a b show ?thesis by blast
qed

text \<open>
  C5. The signer is deterministic and has no hidden state: two calls that agree on the API
  key, the API secret, the clock value, the query string and the body return the same
  result, whatever the rest of the environment, the \<^verbatim>\<open>method\<close> argument and the
  digests made before are, and they digest the same two objects.
\<close>

theorem C5_deterministic:
  "API_KEY (env w1) = API_KEY (env w2) \<Longrightarrow> API_SECRET (env w1) = API_SECRET (env w2) \<Longrightarrow>
   Date_now w1 = Date_now w2 \<Longrightarrow> queryString p1 = queryString p2 \<Longrightarrow> body p1 = body p2 \<Longrightarrow>
   fst (computeSignHeaders w1 p1 log1) = fst (computeSignHeaders w2 p2 log2)
   \<and> (\<exists>ds. snd (computeSignHeaders w1 p1 log1) = log1 @ ds
          \<and> snd (computeSignHeaders w2 p2 log2) = log2 @ ds)"
  by (simp add: computeSignHeaders_def Let_def digest_hex_def split: prod.splits)

theorem C5_deterministic_witness:
  "fst (computeSignHeaders \<lparr>env = test_env, Date_now = 1700000000000\<rparr>
         \<lparr>http_method = ''GET'', queryString = Some ''symbol=BTCUSDT'', body = Some []\<rparr> [])
   = fst (computeSignHeaders \<lparr>env = other_env, Date_now = 1700000000000\<rparr>
         \<lparr>http_method = ''GET'', queryString = Some ''symbol=BTCUSDT'', body = Some []\<rparr>
         [\<lparr>hmac_key = [1], hmac_data = [2]\<rparr>])"
  using C5_deterministic [of "\<lparr>env = test_env, Date_now = 1700000000000\<rparr>"
      "\<lparr>env = other_env, Date_now = 1700000000000\<rparr>"
      "\<lparr>http_method = ''GET'', queryString = Some ''symbol=BTCUSDT'', body = Some []\<rparr>"
      "\<lparr>http_method = ''GET'', queryString = Some ''symbol=BTCUSDT'', body = Some []\<rparr>"
      "[]" "[\<lparr>hmac_key = [1], hmac_data = [2]\<rparr>]"]
  by (simp add: test_env_credentials other_env_credentials)

text \<open>
  C6. For non-empty credentials and any request, two calls whose clock values fall in the
  same 30000 ms bucket both return headers, digest the same objects (so the derived key,
  which is the key of the second digest, is the same) and return the same sign header;
  their expires headers are equal only if the clock values are equal, so they differ
  whenever the clock values differ.
\<close>

theorem C6_same_bucket:
  assumes "API_KEY (env w1) \<noteq> []" and "API_SECRET (env w1) \<noteq> []"
    and "API_KEY (env w2) = API_KEY (env w1)" and "API_SECRET (env w2) = API_SECRET (env w1)"
    and "Date_now w1 div 30000 = Date_now w2 div 30000"
  shows "\<exists>h1 h2 ds.
      computeSignHeaders w1 p log = (Inr h1, log @ ds)
    \<and> computeSignHeaders w2 p log = (Inr h2, log @ ds)
    \<and> map hmac_key ds = [utf8_bytes (API_SECRET (env w1)),
                          utf8_bytes (spec_derivedKey (API_SECRET (env w1)) (Date_now w1))]
    \<and> spec_derivedKey (API_SECRET (env w1)) (Date_now w1)
        = spec_derivedKey (API_SECRET (env w2)) (Date_now w2)
    \<and> X_CS_SIGN h1 = X_CS_SIGN h2
    \<and> (X_CS_EXPIRES h1 = X_CS_EXPIRES h2 \<longleftrightarrow> Date_now w1 = Date_now w2)"
proof -
  let ?s = "API_SECRET (env w1)" and ?pl = "payload_of (queryString p) (body p)"
  have tb: "spec_timeBucket (Date_now w1) = spec_timeBucket (Date_now w2)"
    using assms(5) by (simp add: spec_timeBucket_def)
  then have dk: "spec_derivedKey ?s (Date_now w1) = spec_derivedKey ?s (Date_now w2)"
    by (simp add: spec_derivedKey_def)
  then have sg: "spec_signature ?s (Date_now w1) ?pl = spec_signature ?s (Date_now w2) ?pl"
    by (simp add: spec_signature_def)
  have dg: "two_round_log ?s (Date_now w1) ?pl = two_round_log ?s (Date_now w2) ?pl"
    using tb dk by (simp add: two_round_log_def)
  have r1: "computeSignHeaders w1 p log =
      (Inr (spec_signedHeaders (API_KEY (env w1)) ?s (Date_now w1) ?pl),
       log @ two_round_log ?s (Date_now w1) ?pl)"
    using assms(1,2) by (rule computeSignHeaders_signed)
  have r2: "computeSignHeaders w2 p log =
      (Inr (spec_signedHeaders (API_KEY (env w1)) ?s (Date_now w2) ?pl),
       log @ two_round_log ?s (Date_now w1) ?pl)"
    using assms(1-4) dg by (simp add: computeSignHeaders_signed)
  have ks: "map hmac_key (two_round_log ?s (Date_now w1) ?pl)
      = [utf8_bytes ?s, utf8_bytes (spec_derivedKey ?s (Date_now w1))]"
    by (simp add: two_round_log_def)
  have ex: "X_CS_EXPIRES (spec_signedHeaders (API_KEY (env w1)) ?s (Date_now w1) ?pl)
      = X_CS_EXPIRES (spec_signedHeaders (API_KEY (env w1)) ?s (Date_now w2) ?pl)
      \<longleftrightarrow> Date_now w1 = Date_now w2"
    by (auto simp add: spec_signedHeaders_def dest: Number_toString_inj)
  have sn: "X_CS_SIGN (spec_signedHeaders (API_KEY (env w1)) ?s (Date_now w1) ?pl)
      = X_CS_SIGN (spec_signedHeaders (API_KEY (env w1)) ?s (Date_now w2) ?pl)"
    using sg by (simp add: spec_signedHeaders_def)
  from r1 r2 ks dk sn ex assms(4) show ?thesis by metis
qed

theorem C6_same_bucket_witness:
  "\<exists>h1 h2 ds.
      computeSignHeaders \<lparr>env = test_env, Date_now = 1700000000000\<rparr>
         \<lparr>http_method = ''GET'', queryString = Some ''symbol=BTCUSDT'', body = Some []\<rparr> [] = (Inr h1, ds)
    \<and> computeSignHeaders \<lparr>env = test_env, Date_now = 1700000009999\<rparr>
         \<lparr>http_method = ''GET'', queryString = Some ''symbol=BTCUSDT'', body = Some []\<rparr> [] = (Inr h2, ds)
    \<and> X_CS_SIGN h1 = X_CS_SIGN h2
    \<and> X_CS_EXPIRES h1 \<noteq> X_CS_EXPIRES h2"
  using C6_same_bucket [of "\<lparr>env = test_env, Date_now = 1700000000000\<rparr>"
      "\<lparr>env = test_env, Date_now = 1700000009999\<rparr>"
      "\<lparr>http_method = ''GET'', queryString = Some ''symbol=BTCUSDT'', body = Some []\<rparr>" "[]"]
  by (auto simp add: test_env_credentials)

text \<open>
  C8. The repository uses both conventions for an empty body. \<^verbatim>\<open>getBalances\<close> of
  \<^verbatim>\<open>src/src/index.ts\<close> calls the signer with the empty string as body and signs the empty
  payload; \<^verbatim>\<open>getBalances\<close> of \<^verbatim>\<open>src/js/lasttrade.js\<close> calls its signer with the
  two characters \<open>{}\<close> and signs the payload \<open>{}\<close>. For the same credentials and
  clock value the derived key is the same and the two signed payloads differ.
\<close>

theorem C8_empty_body_conventions:
  "(API_KEY (env w) \<noteq> [] \<and> API_SECRET (env w) \<noteq> [] \<longrightarrow>
      (\<exists>r k. getBalances w log =
           (Inr r, log @ [k, \<lparr>hmac_key = utf8_bytes (spec_derivedKey (API_SECRET (env w)) (Date_now w)),
                               hmac_data = utf8_bytes []\<rparr>])
         \<and> X_CS_SIGN (req_headers r) = spec_signature (API_SECRET (env w)) (Date_now w) []))
   \<and> (\<exists>r k. getBalances_js w log =
           (r, log @ [k, \<lparr>hmac_key = utf8_bytes (spec_derivedKey (API_SECRET (env w)) (Date_now w)),
                           hmac_data = utf8_bytes ''{}''\<rparr>])
         \<and> X_CS_SIGN (req_headers r) = spec_signature (API_SECRET (env w)) (Date_now w) ''{}'')
   \<and> snd (getBalances w log)
       = snd (computeSignHeaders w \<lparr>http_method = ''GET'', queryString = Some [], body = Some []\<rparr> log)
   \<and> snd (getBalances_js w log)
       = snd (createSignedHeaders w
               \<lparr>sp_queryString = Some [], sp_body = Some ''{}''\<rparr> log)
   \<and> utf8_bytes [] \<noteq> utf8_bytes ''{}''"
proof -
  have a: "API_KEY (env w) \<noteq> [] \<and> API_SECRET (env w) \<noteq> [] \<longrightarrow>
      (\<exists>r k. getBalances w log =
           (Inr r, log @ [k, \<lparr>hmac_key = utf8_bytes (spec_derivedKey (API_SECRET (env w)) (Date_now w)),
                               hmac_data = utf8_bytes []\<rparr>])
         \<and> X_CS_SIGN (req_headers r) = spec_signature (API_SECRET (env w)) (Date_now w) [])"
    by (simp add: getBalances_signer computeSignHeaders_signed spec_signedHeaders_def
        two_round_log_def payload_of_def param_default_def)
  have b: "\<exists>r k. getBalances_js w log =
           (r, log @ [k, \<lparr>hmac_key = utf8_bytes (spec_derivedKey (API_SECRET (env w)) (Date_now w)),
                           hmac_data = utf8_bytes ''{}''\<rparr>])
         \<and> X_CS_SIGN (req_headers r) = spec_signature (API_SECRET (env w)) (Date_now w) ''{}''"
    by (simp add: getBalances_js_signer createSignedHeaders_signed spec_signedHeaders_def
        two_round_log_def payload_of_def param_default_def)
  have c: "snd (getBalances w log)
       = snd (computeSignHeaders w \<lparr>http_method = ''GET'', queryString = Some [], body = Some []\<rparr> log)"
    by (simp add: getBalances_signer split: prod.splits sum.splits)
  have d: "snd (getBalances_js w log)
       = snd (createSignedHeaders w
               \<lparr>sp_queryString = Some [], sp_body = Some ''{}''\<rparr> log)"
    by (simp add: getBalances_js_signer split: prod.splits)
  have e: "utf8_bytes [] \<noteq> utf8_bytes ''{}''"
    by (simp add: utf8_bytes_def)
  from a b c d e show ?thesis by blast
qed

theorem C8_empty_body_conventions_witness:
  "(\<exists>r k. getBalances \<lparr>env = test_env, Date_now = 1700000000000\<rparr> [] =
       (Inr r, [k, \<lparr>hmac_key = utf8_bytes (spec_derivedKey ''s'' 1700000000000),
                     hmac_data = utf8_bytes []\<rparr>]))
   \<and> (\<exists>r k. getBalances_js \<lparr>env = test_env, Date_now = 1700000000000\<rparr> [] =
       (r, [k, \<lparr>hmac_key = utf8_bytes (spec_derivedKey ''s'' 1700000000000),
                 hmac_data = utf8_bytes ''{}''\<rparr>]))"
proof -
  let ?w = "\<lparr>env = test_env, Date_now = 1700000000000\<rparr>"
  have ts: "API_KEY (env ?w) \<noteq> [] \<and> API_SECRET (env ?w) \<noteq> []"
    by (simp add: test_env_credentials)
  have "\<exists>r k. getBalances ?w [] =
       (Inr r, [] @ [k, \<lparr>hmac_key = utf8_bytes (spec_derivedKey (API_SECRET (env ?w)) (Date_now ?w)),
                     hmac_data = utf8_bytes []\<rparr>])"
    using C8_empty_body_conventions [of ?w "[]"] ts by blast
  moreover have "\<exists>r k. getBalances_js ?w [] =
       (r, [] @ [k, \<lparr>hmac_key = utf8_bytes (spec_derivedKey (API_SECRET (env ?w)) (Date_now ?w)),
                 hmac_data = utf8_bytes ''{}''\<rparr>])"
    using C8_empty_body_conventions [of ?w "[]"] by blast
  ultimately show ?thesis by (simp add: test_env_credentials)
qed

text \<open>
  C9. The \<^verbatim>\<open>method\<close> parameter of \<^verbatim>\<open>computeSignHeaders\<close> has no influence: two calls
  that differ only in the method return the same result and digest the same objects.
\<close>

theorem C9_method_ignored:
  "computeSignHeaders w (p\<lparr>http_method := m1\<rparr>) log = computeSignHeaders w (p\<lparr>http_method := m2\<rparr>) log"
  by (simp add: computeSignHeaders_def)

text \<open>
  C10. The two signers agree: with a non-empty API key and API secret,
  \<^verbatim>\<open>computeSignHeaders\<close> returns exactly the headers that \<^verbatim>\<open>createSignedHeaders\<close>
  returns for the same query string and body, after the same digests. They differ in the
  guard only: with an empty credential \<^verbatim>\<open>computeSignHeaders\<close> raises while
  \<^verbatim>\<open>createSignedHeaders\<close> still returns four headers.
\<close>

theorem C10_signers_agree:
  "(API_KEY (env w) \<noteq> [] \<and> API_SECRET (env w) \<noteq> [] \<longrightarrow>
      (\<exists>h log'. createSignedHeaders w \<lparr>sp_queryString = q, sp_body = b\<rparr> log = (h, log')
         \<and> computeSignHeaders w \<lparr>http_method = m, queryString = q, body = b\<rparr> log = (Inr h, log')))
   \<and> (API_KEY (env w) = [] \<or> API_SECRET (env w) = [] \<longrightarrow>
        computeSignHeaders w \<lparr>http_method = m, queryString = q, body = b\<rparr> log
          = (Inl (Error ''Missing CS_API_KEY/CS_API_SECRET''), log)
        \<and> (\<exists>sign d1 d2. createSignedHeaders w \<lparr>sp_queryString = q, sp_body = b\<rparr> log
              = (\<lparr>X_CS_APIKEY = API_KEY (env w),
                   X_CS_EXPIRES = Number_toString (Date_now w),
                   X_CS_SIGN = sign,
                   Content_Type = ''application/json''\<rparr>, log @ [d1, d2])))"
  by (simp add: computeSignHeaders_signed computeSignHeaders_missing
      createSignedHeaders_signed spec_signedHeaders_def two_round_log_def)

theorem C10_signers_agree_witness:
  "(\<exists>h log'. createSignedHeaders \<lparr>env = test_env, Date_now = 1700000000000\<rparr>
        \<lparr>sp_queryString = Some ''symbol=BTCUSDT'', sp_body = None\<rparr> [] = (h, log')
      \<and> computeSignHeaders \<lparr>env = test_env, Date_now = 1700000000000\<rparr>
        \<lparr>http_method = ''GET'', queryString = Some ''symbol=BTCUSDT'', body = None\<rparr> []
        = (Inr h, log'))
   \<and> computeSignHeaders \<lparr>env = unset_env, Date_now = 1700000000000\<rparr>
        \<lparr>http_method = ''GET'', queryString = Some ''symbol=BTCUSDT'', body = None\<rparr> []
        = (Inl (Error ''Missing CS_API_KEY/CS_API_SECRET''), [])
   \<and> (\<exists>sign d1 d2. createSignedHeaders \<lparr>env = unset_env, Date_now = 1700000000000\<rparr>
        \<lparr>sp_queryString = Some ''symbol=BTCUSDT'', sp_body = None\<rparr> []
        = (\<lparr>X_CS_APIKEY = [], X_CS_EXPIRES = ''1700000000000'', X_CS_SIGN = sign,
             Content_Type = ''application/json''\<rparr>, [d1, d2]))"
proof -
  have s2: "Number_toString 1700000000000 = ''1700000000000''"
    by (simp add: Number_toString_eval)
  show ?thesis
    using C10_signers_agree [of "\<lparr>env = test_env, Date_now = 1700000000000\<rparr>"
        "Some ''symbol=BTCUSDT''" None "[]" "''GET''"]
      C10_signers_agree [of "\<lparr>env = unset_env, Date_now = 1700000000000\<rparr>"
        "Some ''symbol=BTCUSDT''" None "[]" "''GET''"]
    by (auto simp add: test_env_credentials unset_env_credentials s2)
qed

end
